theory Spec2Isabelle
  imports
    Complex_Main
    "HOL-Library.Char_ord"
    "HOL-Library.List_Lexorder"
    "HOL-Library.Product_Lexorder"
begin

section \<open>Data model\<close>

text \<open>
  The program keeps two tables, \<^verbatim>\<open>expenses.csv\<close> and \<^verbatim>\<open>budget.csv\<close>, as pandas
  data frames. A row of the expense table has the five columns the expense form writes
  (\<^verbatim>\<open>[month, amount, category, scheduled, description]\<close>). Currency amounts are Python
  floats in the program; here they are rationals, so all arithmetic is exact.

  The planned flag and the description are free cells of a data frame: a Python string
  (\<open>Text\<close>); a missing value, \<^verbatim>\<open>None\<close> or \<^verbatim>\<open>NaN\<close> (\<open>Missing\<close>); or, in a column that
  \<^verbatim>\<open>read_csv\<close> read as numbers or booleans, such a value, held as the text \<^verbatim>\<open>to_csv\<close>
  writes for it (\<open>Typed\<close>). The month is a period key, the category one of the form's
  categories and the amount a number, in every frame.
\<close>

datatype cell = Text string | Typed string | Missing

record expense =
  Month :: string
  Amount :: rat
  Category :: string
  Planned_Unplanned :: cell
  Description :: cell

section \<open>Allocate my Paycheck: the allocation block\<close>

text \<open>
  \<^verbatim>\<open>expense_df[expense_df['Category'] == cat]['Amount']\<close>: the amounts of one category,
  in table order.
\<close>

definition category_amounts :: "expense list \<Rightarrow> string \<Rightarrow> rat list" where
  "category_amounts expense_df cat = map Amount (filter (\<lambda>r. Category r = cat) expense_df)"

text \<open>
  \<^verbatim>\<open>s.max() if not s.empty else 0\<close> and \<^verbatim>\<open>s.mean() if not s.empty else 0\<close>.
\<close>

definition max_or_0 :: "rat list \<Rightarrow> rat" where
  "max_or_0 s = (case s of [] \<Rightarrow> 0 | x # xs \<Rightarrow> fold max xs x)"

definition mean_or_0 :: "rat list \<Rightarrow> rat" where
  "mean_or_0 s = (case s of [] \<Rightarrow> 0 | _ # _ \<Rightarrow> sum_list s / of_nat (length s))"

definition rent_max :: "expense list \<Rightarrow> rat" where
  "rent_max expense_df = max_or_0 (category_amounts expense_df ''Rent'')"

definition subscriptions_max :: "expense list \<Rightarrow> rat" where
  "subscriptions_max expense_df = max_or_0 (category_amounts expense_df ''Subscriptions'')"

definition groceries_avg :: "expense list \<Rightarrow> rat" where
  "groceries_avg expense_df = mean_or_0 (category_amounts expense_df ''Groceries'')"

definition utilities_max :: "expense list \<Rightarrow> rat" where
  "utilities_max expense_df = max_or_0 (category_amounts expense_df ''Utilities'')"

text \<open>The variable is called \<^verbatim>\<open>gas_max\<close> in the source and holds a mean.\<close>

definition gas_max :: "expense list \<Rightarrow> rat" where
  "gas_max expense_df = mean_or_0 (category_amounts expense_df ''Gas'')"

definition pet_avg :: "expense list \<Rightarrow> rat" where
  "pet_avg expense_df = mean_or_0 (category_amounts expense_df ''Pet Expenses'')"

definition gym_max :: "expense list \<Rightarrow> rat" where
  "gym_max expense_df = max_or_0 (category_amounts expense_df ''Gym Membership'')"

definition saving1_acct :: "rat \<Rightarrow> rat \<Rightarrow> rat" where
  "saving1_acct paycheck saving1 = paycheck * saving1"

definition saving2_acct :: "rat \<Rightarrow> rat \<Rightarrow> rat" where
  "saving2_acct paycheck saving2 = paycheck * saving2"

definition saving3_acct :: "rat \<Rightarrow> rat \<Rightarrow> rat" where
  "saving3_acct paycheck saving3 = paycheck * saving3"

definition total_saved :: "rat \<Rightarrow> rat \<Rightarrow> rat \<Rightarrow> rat \<Rightarrow> rat" where
  "total_saved paycheck saving1 saving2 saving3 =
     saving1_acct paycheck saving1 + saving2_acct paycheck saving2 + saving3_acct paycheck saving3"

text \<open>
  Line 175 of the source: six of the seven statistics are added; \<^verbatim>\<open>gym_max\<close> is computed
  on line 162 and not used. \<^verbatim>\<open>check_expense_exists\<close> raises nothing, so the handler for
  \<^verbatim>\<open>FileNotFoundError\<close> on lines 164 to 166 is never entered.
\<close>

definition fixed_budget :: "expense list \<Rightarrow> rat" where
  "fixed_budget expense_df =
     rent_max expense_df + subscriptions_max expense_df + groceries_avg expense_df
     + utilities_max expense_df + gas_max expense_df + pet_avg expense_df"

definition misc_budget :: "rat \<Rightarrow> rat \<Rightarrow> rat \<Rightarrow> rat \<Rightarrow> expense list \<Rightarrow> rat" where
  "misc_budget paycheck saving1 saving2 saving3 expense_df =
     paycheck - (total_saved paycheck saving1 saving2 saving3 + fixed_budget expense_df)"

text \<open>
  The fixed budget as the specification words it: the sum of all seven statistics.
\<close>

definition spec_fixed_budget :: "expense list \<Rightarrow> rat" where
  "spec_fixed_budget expense_df =
     rent_max expense_df + subscriptions_max expense_df + groceries_avg expense_df
     + utilities_max expense_df + gas_max expense_df + pet_avg expense_df
     + gym_max expense_df"

section \<open>Tables, files and messages\<close>

text \<open>
  A row of the budget table, by the column names of \<^verbatim>\<open>check_budget_exists\<close>:
  \<^verbatim>\<open>Month, Paycheck, saving1, saving2, STS, Total_Saved, Fixed_Expenses, Misc_Budget\<close>.
\<close>

record budget =
  B_Month :: string
  Paycheck :: rat
  B_saving1 :: rat
  B_saving2 :: rat
  STS :: rat
  Total_Saved :: rat
  Fixed_Expenses :: rat
  Misc_Budget :: rat

text \<open>
  A data frame: its column header and its rows, in order. The exceptions the modelled
  code can raise.
\<close>

record 'r table =
  columns :: "string list"
  rows :: "'r list"

datatype error =
  NameError string | KeyError | IndexError | ValueError | FileNotFoundError | ParserError

text \<open>
  A file is held as the frame \<^verbatim>\<open>pd.read_csv\<close> reads from it, or is one that
  \<^verbatim>\<open>pd.read_csv\<close> fails to parse. What \<^verbatim>\<open>to_csv\<close> followed by \<^verbatim>\<open>read_csv\<close> makes of a
  frame in memory is \<open>reread\<close> below. The store is the working directory: \<open>None\<close> where
  \<^verbatim>\<open>os.path.exists\<close> is false.
\<close>

datatype 'r csv_file = Csv "'r table" | Unparsable

record store =
  budget_csv :: "budget csv_file option"
  expenses_csv :: "expense csv_file option"

datatype message =
  St_error string
  | St_write string
  | St_success string
  | St_subheader string
  | St_metric string rat
  | St_warning string rat
  | St_dataframe "(string \<times> rat) list"

definition budget_columns :: "string list" where
  "budget_columns = [''Month'', ''Paycheck'', ''saving1'', ''saving2'', ''STS'',
                      ''Total_Saved'', ''Fixed_Expenses'', ''Misc_Budget'']"

definition expense_columns :: "string list" where
  "expense_columns = [''Month'', ''Amount'', ''Category'', ''Planned_Unplanned'',
                       ''Description'']"

text \<open>
  \<^verbatim>\<open>create_dataframe(csv)\<close> is \<^verbatim>\<open>pd.read_csv(csv)\<close>; it raises on a missing or an
  unparsable file.
\<close>

definition create_dataframe :: "'r csv_file option \<Rightarrow> error + 'r table" where
  "create_dataframe f =
     (case f of None \<Rightarrow> Inl FileNotFoundError
      | Some Unparsable \<Rightarrow> Inl ParserError
      | Some (Csv t) \<Rightarrow> Inr t)"

text \<open>
  \<^verbatim>\<open>check_budget_exists\<close> and \<^verbatim>\<open>check_expense_exists\<close> return the data frame together
  with what they show on the page (\<^verbatim>\<open>st.error\<close> when reading fails).
\<close>

definition check_budget_exists :: "store \<Rightarrow> budget table \<times> message list" where
  "check_budget_exists st =
     (if budget_csv st \<noteq> None then
        (case create_dataframe (budget_csv st) of
           Inr budget_df \<Rightarrow> (budget_df, [])
         | Inl err \<Rightarrow> (\<lparr>columns = budget_columns, rows = []\<rparr>, [St_error ''Error reading CSV'']))
      else (\<lparr>columns = budget_columns, rows = []\<rparr>, []))"

definition check_expense_exists :: "store \<Rightarrow> expense table \<times> message list" where
  "check_expense_exists st =
     (if expenses_csv st \<noteq> None then
        (case create_dataframe (expenses_csv st) of
           Inr expense_df \<Rightarrow> (expense_df, [])
         | Inl err \<Rightarrow> (\<lparr>columns = expense_columns, rows = []\<rparr>, [St_error ''Error reading CSV'']))
      else (\<lparr>columns = expense_columns, rows = []\<rparr>, []))"

section \<open>Dates and the period key\<close>

text \<open>
  \<^verbatim>\<open>curr_date.strftime("%m/%Y")\<close>: the month on two digits, a slash, the year in decimal.
\<close>

record date =
  d_year :: nat
  d_month :: nat
  d_day :: nat

definition digit :: "nat \<Rightarrow> char" where
  "digit n = ''0123456789'' ! (n mod 10)"

fun decimal :: "nat \<Rightarrow> string" where
  "decimal n = (if n < 10 then [digit n] else decimal (n div 10) @ [digit n])"

declare decimal.simps [simp del]

definition strftime_m_Y :: "date \<Rightarrow> string" where
  "strftime_m_Y d =
     [digit (d_month d div 10), digit (d_month d)] @ ''/'' @ decimal (d_year d)"

section \<open>The two submit handlers\<close>

text \<open>
  Writing a frame with \<^verbatim>\<open>to_csv\<close> and reading it with \<^verbatim>\<open>read_csv\<close>. A string is written
  as it is (quoted where it must be, which \<^verbatim>\<open>read_csv\<close> undoes), a missing value as the
  empty field. On reading, a field that is one of pandas' default missing-value markers
  becomes \<^verbatim>\<open>NaN\<close>.
\<close>

definition na_values :: "string list" where
  "na_values = ['''', ''#N/A'', ''#N/A N/A'', ''#NA'', ''-1.#IND'', ''-1.#QNAN'', ''-NaN'',
                 ''-nan'', ''1.#IND'', ''1.#QNAN'', ''<NA>'', ''N/A'', ''NA'', ''NULL'', ''NaN'',
                 ''None'', ''n/a'', ''nan'', ''null'']"

definition write_cell :: "cell \<Rightarrow> string" where
  "write_cell c = (case c of Text s \<Rightarrow> s | Typed t \<Rightarrow> t | Missing \<Rightarrow> '''')"

definition marked :: "string list \<Rightarrow> string option list" where
  "marked fs = map (\<lambda>f. if f \<in> set na_values then None else Some f) fs"

text \<open>
  \<^verbatim>\<open>read_csv\<close> then settles the type of the column from its present fields. Which
  columns it takes for numbers or booleans, and which value it reads from a field, is
  pandas' parser; it is the parameter \<open>retype\<close>: \<open>retype fs = Some canon\<close> when the
  column is read as numbers or booleans, \<open>canon f\<close> being the text of the value read from
  the field \<open>f\<close>, and \<open>retype fs = None\<close> when the column stays a column of strings.
  A column with no present field is a column of \<^verbatim>\<open>NaN\<close>.
\<close>

type_synonym retype = "string option list \<Rightarrow> (string \<Rightarrow> string) option"

definition read_column :: "retype \<Rightarrow> string list \<Rightarrow> cell list" where
  "read_column retype fs =
     (if list_all (\<lambda>m. m = None) (marked fs) then map (\<lambda>m. Missing) (marked fs)
      else case retype (marked fs) of
             Some canon \<Rightarrow>
               map (\<lambda>m. case m of None \<Rightarrow> Missing | Some f \<Rightarrow> Typed (canon f)) (marked fs)
           | None \<Rightarrow>
               map (\<lambda>m. case m of None \<Rightarrow> Missing | Some f \<Rightarrow> Text f) (marked fs))"

definition reread :: "retype \<Rightarrow> expense list \<Rightarrow> expense list" where
  "reread retype data =
     (let planned = read_column retype (map (\<lambda>r. write_cell (Planned_Unplanned r)) data);
          description = read_column retype (map (\<lambda>r. write_cell (Description r)) data)
      in map (\<lambda>(r, p, d). r\<lparr>Planned_Unplanned := p, Description := d\<rparr>)
           (zip data (zip planned description)))"

text \<open>A reader that leaves every column a column of strings.\<close>

definition keeps_text :: retype where
  "keeps_text fs = None"

text \<open>The options of the category select box, lines 231 to 239.\<close>

definition category_options :: "string list" where
  "category_options =
     [''Rent'', ''Utilities'', ''Car Insurance'', ''Gas'', ''Public Transportation'',
      ''Groceries'', ''Dining Out'', ''Delivery Services'', ''Renters Insurance'',
      ''Medical Expenses'', ''Gym Membership'', ''Health-Related Products'',
      ''Subscriptions'', ''Movies, Concerts, Events'', ''Hobbies'', ''Travel'',
      ''Haircut'', ''Skincare, Makeup'', ''Clothes'', ''Toiletries (soap, toothpaste, etc.)'',
      ''Gifts'', ''Pet Expenses'', ''Other'']"

text \<open>
  The row the form builds on line 247, in memory: \<^verbatim>\<open>scheduled\<close> is the value of
  \<^verbatim>\<open>st.pills\<close>, \<^verbatim>\<open>None\<close> until a pill is chosen, and \<^verbatim>\<open>description\<close> the string of the text
  input, empty until something is typed.
\<close>

definition new_row :: "string \<Rightarrow> rat \<Rightarrow> string \<Rightarrow> string option \<Rightarrow> string \<Rightarrow> expense" where
  "new_row month amount category scheduled description =
     \<lparr>Month = month, Amount = amount, Category = category,
      Planned_Unplanned = (case scheduled of None \<Rightarrow> Missing | Some s \<Rightarrow> Text s),
      Description = Text description\<rparr>"

text \<open>
  Log my Expenses, lines 245 to 251. \<^verbatim>\<open>month\<close> is bound only when a date was picked
  (\<^verbatim>\<open>if curr_date: month = ...\<close>), so the row literal raises \<^verbatim>\<open>NameError\<close> without one.
  \<^verbatim>\<open>pd.DataFrame([[...five values...]], columns=e_df.columns)\<close> raises \<^verbatim>\<open>ValueError\<close>
  unless the loaded frame has five columns. The handler then writes the whole frame
  to \<^verbatim>\<open>expenses.csv\<close>, which from then on reads as \<open>reread\<close> of that frame.
\<close>

definition expense_submit ::
  "retype \<Rightarrow> store \<Rightarrow> date option \<Rightarrow> rat \<Rightarrow> string \<Rightarrow> string option \<Rightarrow> string
     \<Rightarrow> error + store \<times> message list" where
  "expense_submit retype st curr_date amount category scheduled description =
     (let (e_df, msgs) = check_expense_exists st in
      case map_option strftime_m_Y curr_date of
        None \<Rightarrow> Inl (NameError ''month'')
      | Some month \<Rightarrow>
          if length (columns e_df) \<noteq> 5 then Inl ValueError
          else
            let new_data = new_row month amount category scheduled description;
                e_df' = \<lparr>columns = columns e_df, rows = rows e_df @ [new_data]\<rparr>
            in Inr (st\<lparr>expenses_csv :=
                        Some (Csv \<lparr>columns = columns e_df',
                                   rows = reread retype (rows e_df')\<rparr>)\<rparr>,
                    msgs @ [St_success ''Your expense has been successfully logged!'']))"

text \<open>
  Submitting an expense and loading the table again, as line 256 does: the rows of the
  reloaded frame.
\<close>

definition append_and_reload ::
  "retype \<Rightarrow> store \<Rightarrow> date option \<Rightarrow> rat \<Rightarrow> string \<Rightarrow> string option \<Rightarrow> string
     \<Rightarrow> error + expense list" where
  "append_and_reload retype st curr_date amount category scheduled description =
     (case expense_submit retype st curr_date amount category scheduled description of
        Inl err \<Rightarrow> Inl err
      | Inr (st', msgs) \<Rightarrow> Inr (rows (fst (check_expense_exists st'))))"

text \<open>
  A cell as \<^verbatim>\<open>read_csv\<close> leaves it in a column of strings: a string that is no
  missing-value marker, or a missing value. A column is read as strings when it has no
  present field or the parser does not retype it.
\<close>

definition text_or_missing :: "cell \<Rightarrow> bool" where
  "text_or_missing c =
     (case c of Text s \<Rightarrow> s \<notin> set na_values | Typed t \<Rightarrow> False | Missing \<Rightarrow> True)"

definition reads_as_text :: "retype \<Rightarrow> string list \<Rightarrow> bool" where
  "reads_as_text retype fs =
     (list_all (\<lambda>m. m = None) (marked fs) \<or> retype (marked fs) = None)"

text \<open>What a cell written from memory reads back as, in a column of strings.\<close>

definition read_back :: "cell \<Rightarrow> cell" where
  "read_back c = (if write_cell c \<in> set na_values then Missing else Text (write_cell c))"

text \<open>
  Allocate my Paycheck, lines 183 to 189. The row literal on line 185 is
  \<^verbatim>\<open>[month, paycheck, saving1_acct, saving2_acct, sts_acct, total_saved, fixed_budget,
  misc_budget]\<close>, evaluated left to right. No statement of the script assigns
  \<^verbatim>\<open>sts_acct\<close>, so reading it raises \<^verbatim>\<open>NameError\<close>.
\<close>

definition sts_acct :: "error + rat" where
  "sts_acct = Inl (NameError ''sts_acct'')"

definition paycheck_submit ::
  "store \<Rightarrow> date option \<Rightarrow> rat \<Rightarrow> rat \<Rightarrow> rat \<Rightarrow> rat \<Rightarrow> error + store \<times> message list" where
  "paycheck_submit st curr_date paycheck saving1 saving2 saving3 =
     (let (budget_df, msgs) = check_budget_exists st;
          (expense_df, msgs') = check_expense_exists st in
      case map_option strftime_m_Y curr_date of
        None \<Rightarrow> Inl (NameError ''month'')
      | Some month \<Rightarrow>
         (case sts_acct of
            Inl err \<Rightarrow> Inl err
          | Inr sts \<Rightarrow>
              if length (columns budget_df) \<noteq> 8 then Inl ValueError
              else
                let new_data =
                      \<lparr>B_Month = month, Paycheck = paycheck,
                       B_saving1 = saving1_acct paycheck saving1,
                       B_saving2 = saving2_acct paycheck saving2,
                       STS = sts,
                       Total_Saved = total_saved paycheck saving1 saving2 saving3,
                       Fixed_Expenses = fixed_budget (rows expense_df),
                       Misc_Budget =
                         misc_budget paycheck saving1 saving2 saving3 (rows expense_df)\<rparr>;
                    budget_df' =
                      \<lparr>columns = columns budget_df, rows = rows budget_df @ [new_data]\<rparr>
                in Inr (st\<lparr>budget_csv := Some (Csv budget_df')\<rparr>,
                        msgs @ msgs'
                        @ [St_success ''Your paycheck has been successfully allocated!''])))"

section \<open>Aggregation\<close>

text \<open>
  \<^verbatim>\<open>df.groupby(['Month', 'Category'])['Amount'].sum()\<close>: one entry per distinct
  (Month, Category) pair, in ascending key order (pandas sorts group keys), holding the
  sum of the amounts of the rows with that key. Strings compare as Python compares
  them, character by character.
\<close>

definition group_key :: "expense \<Rightarrow> string \<times> string" where
  "group_key r = (Month r, Category r)"

definition group_amount :: "expense list \<Rightarrow> string \<times> string \<Rightarrow> rat" where
  "group_amount data k = sum_list (map Amount (filter (\<lambda>r. group_key r = k) data))"

definition groupby_sum :: "expense list \<Rightarrow> ((string \<times> string) \<times> rat) list" where
  "groupby_sum data =
     map (\<lambda>k. (k, group_amount data k)) (sort (remdups (map group_key data)))"

text \<open>
  \<^verbatim>\<open>series[select_month]\<close> on the two-level index: the entries of that month, keyed by
  category; \<^verbatim>\<open>KeyError\<close> when the month is not in the index.
\<close>

definition month_slice ::
  "((string \<times> string) \<times> rat) list \<Rightarrow> string \<Rightarrow> error + (string \<times> rat) list" where
  "month_slice series select_month =
     (let sub = map (\<lambda>((m, c), a). (c, a)) (filter (\<lambda>((m, c), a). m = select_month) series)
      in if sub = [] then Inl KeyError else Inr sub)"

text \<open>
  \<^verbatim>\<open>budget_check[budget_check['Month'] == select_month][col]\<close>: the column restricted to
  the rows of the month, each value under the index label of its row (its position in
  the table that was read). \<^verbatim>\<open>series[0]\<close> looks the label 0 up; \<^verbatim>\<open>series.iloc[0]\<close> takes
  the first value.
\<close>

definition month_column :: "budget table \<Rightarrow> string \<Rightarrow> (budget \<Rightarrow> rat) \<Rightarrow> (nat \<times> rat) list" where
  "month_column budget_check select_month col =
     map (\<lambda>(i, r). (i, col r))
       (filter (\<lambda>(i, r). B_Month r = select_month) (enumerate 0 (rows budget_check)))"

definition getitem_0 :: "(nat \<times> rat) list \<Rightarrow> error + rat" where
  "getitem_0 series = (case map_of series 0 of None \<Rightarrow> Inl KeyError | Some v \<Rightarrow> Inr v)"

definition iloc_0 :: "(nat \<times> rat) list \<Rightarrow> error + rat" where
  "iloc_0 series = (case series of [] \<Rightarrow> Inl IndexError | (i, v) # _ \<Rightarrow> Inr v)"

section \<open>Log my Expenses: the expense summary\<close>

definition fixed_categories :: "string list" where
  "fixed_categories = [''Rent'', ''Subscriptions'', ''Groceries'', ''Utilities'', ''Gas'',
                        ''Pet Expenses'', ''Gym Membership'']"

text \<open>Lines 263 to 265: the grouped sums of the month, all categories, and their sum.\<close>

definition month_misc_expenses :: "expense list \<Rightarrow> ((string \<times> string) \<times> rat) list" where
  "month_misc_expenses expense_summary = groupby_sum expense_summary"

definition total_misc_expenses :: "expense list \<Rightarrow> string \<Rightarrow> error + rat" where
  "total_misc_expenses expense_summary select_month =
     (case month_slice (month_misc_expenses expense_summary) select_month of
        Inl err \<Rightarrow> Inl err
      | Inr sub \<Rightarrow> Inr (sum_list (map snd sub)))"

text \<open>Lines 282 to 286: the grouped sums whose category is a fixed one.\<close>

definition month_fixed_expenses :: "expense list \<Rightarrow> ((string \<times> string) \<times> rat) list" where
  "month_fixed_expenses expense_summary =
     filter (\<lambda>((m, c), a). c \<in> set fixed_categories) (groupby_sum expense_summary)"

definition total_fixed_expenses :: "expense list \<Rightarrow> string \<Rightarrow> error + rat" where
  "total_fixed_expenses expense_summary select_month =
     (case month_slice (month_fixed_expenses expense_summary) select_month of
        Inl err \<Rightarrow> Inl err
      | Inr sub \<Rightarrow> Inr (sum_list (map snd sub)))"

text \<open>
  The body of a \<^verbatim>\<open>try\<close> block gives what it showed before it ended, and the exception
  that ended it, if any. Amounts in messages are the values before \<^verbatim>\<open>round\<close> and
  string formatting.
\<close>

definition misc_try :: "expense list \<Rightarrow> budget table \<Rightarrow> string \<Rightarrow> message list \<times> error option" where
  "misc_try expense_summary budget_check select_month =
     (case month_slice (month_misc_expenses expense_summary) select_month of
        Inl err \<Rightarrow> ([St_subheader ''Miscellaneous Expenses''], Some err)
      | Inr sub \<Rightarrow>
          let total = sum_list (map snd sub);
              msgs = [St_subheader ''Miscellaneous Expenses'', St_dataframe sub,
                      St_metric ''Total Miscellaneous Expenses (Month)'' total]
          in (case getitem_0 (month_column budget_check select_month Misc_Budget) of
                Inl err \<Rightarrow> (msgs, Some err)
              | Inr misc \<Rightarrow>
                  let over_by_misc = total - misc
                  in if total > misc then
                       (msgs @ [St_warning
                          ''FYI you are over the miscellaneous spend budget by'' over_by_misc],
                        None)
                     else
                       (msgs @ [St_write ''You are within the miscellaneous spend budget.''],
                        None)))"

text \<open>Lines 261 to 275: a bare \<^verbatim>\<open>except\<close> catches every exception.\<close>

definition misc_section :: "expense list \<Rightarrow> budget table \<Rightarrow> string \<Rightarrow> message list" where
  "misc_section expense_summary budget_check select_month =
     (case misc_try expense_summary budget_check select_month of
        (msgs, None) \<Rightarrow> msgs
      | (msgs, Some err) \<Rightarrow> msgs @ [St_write ''There are no miscellaneous expenses logged.''])"

definition fixed_try :: "expense list \<Rightarrow> budget table \<Rightarrow> string \<Rightarrow> message list \<times> error option" where
  "fixed_try expense_summary budget_check select_month =
     (case month_slice (month_fixed_expenses expense_summary) select_month of
        Inl err \<Rightarrow> ([], Some err)
      | Inr sub \<Rightarrow>
          let total = sum_list (map snd sub);
              msgs = [St_dataframe sub, St_metric ''Total Fixed Expenses (Month)'' total]
          in (case iloc_0 (month_column budget_check select_month Fixed_Expenses) of
                Inl err \<Rightarrow> (msgs, Some err)
              | Inr fixed \<Rightarrow>
                  let over_by_fixed = total - fixed
                  in if total > fixed then
                       (msgs @ [St_warning
                          ''FYI you are over the fixed expenses budget by'' over_by_fixed],
                        None)
                     else
                       (msgs @ [St_write ''You are within the fixed expenses budget.''],
                        None)))"

text \<open>
  Lines 279 to 299: \<^verbatim>\<open>except KeyError\<close> catches \<^verbatim>\<open>KeyError\<close> only; any other exception
  leaves the section and ends the script run.
\<close>

definition fixed_section :: "expense list \<Rightarrow> budget table \<Rightarrow> string \<Rightarrow> error + message list" where
  "fixed_section expense_summary budget_check select_month =
     (case fixed_try expense_summary budget_check select_month of
        (msgs, None) \<Rightarrow> Inr (St_subheader ''Fixed Expenses'' # msgs)
      | (msgs, Some KeyError) \<Rightarrow>
          Inr (St_subheader ''Fixed Expenses'' # msgs
               @ [St_write ''There are no fixed expenses logged.''])
      | (msgs, Some err) \<Rightarrow> Inl err)"

text \<open>Lines 254 to 299: the summary below the form, for the selected month.\<close>

definition expense_summary_page :: "store \<Rightarrow> string \<Rightarrow> error + message list" where
  "expense_summary_page st select_month =
     (let (expense_summary, msgs) = check_expense_exists st;
          (budget_check, msgs') = check_budget_exists st
      in case fixed_section (rows expense_summary) budget_check select_month of
           Inl err \<Rightarrow> Inl err
         | Inr fixed_msgs \<Rightarrow>
             Inr (msgs @ msgs'
                  @ misc_section (rows expense_summary) budget_check select_month
                  @ fixed_msgs))"

text \<open>
  The totals as the specification words them: the month's amounts in the fixed
  categories, and the month's amounts in all other categories.
\<close>

definition spec_fixed_total :: "expense list \<Rightarrow> string \<Rightarrow> rat" where
  "spec_fixed_total data select_month =
     sum_list (map Amount
       (filter (\<lambda>r. Month r = select_month \<and> Category r \<in> set fixed_categories) data))"

definition spec_misc_total :: "expense list \<Rightarrow> string \<Rightarrow> rat" where
  "spec_misc_total data select_month =
     sum_list (map Amount
       (filter (\<lambda>r. Month r = select_month \<and> Category r \<notin> set fixed_categories) data))"

section \<open>Finances at a Glance and Historical Data\<close>

text \<open>
  \<^verbatim>\<open>sort_values(by='Month')\<close> orders rows by the Month string. Rows of one month are kept
  in table order here; pandas does not promise an order among them.
\<close>

definition finances_df :: "expense list \<Rightarrow> expense list" where
  "finances_df data = sort_key Month data"

definition grouped_finances :: "expense list \<Rightarrow> ((string \<times> string) \<times> rat) list" where
  "grouped_finances data = groupby_sum (finances_df data)"

text \<open>
  A float that is a number, an infinity or not-a-number. \<^verbatim>\<open>pct_change\<close> is
  \<^verbatim>\<open>current / previous - 1\<close> in float arithmetic: dividing by zero gives an infinity, or
  not-a-number for \<^verbatim>\<open>0 / 0\<close>; an entry with no previous one is not-a-number.
\<close>

datatype fnum = Fin rat | PosInf | NegInf | NaN

definition pct :: "rat \<Rightarrow> rat \<Rightarrow> fnum" where
  "pct previous current =
     (if previous = 0 then (if current = 0 then NaN else if current > 0 then PosInf else NegInf)
      else Fin (current / previous - 1))"

text \<open>
  \<^verbatim>\<open>groupby(keys)['Amount'].pct_change()\<close>: going down the rows, each amount is compared
  with the last earlier amount that has the same key; \<open>seen\<close> holds that amount per key.
\<close>

fun pct_change :: "('k \<rightharpoonup> rat) \<Rightarrow> ('k \<times> rat) list \<Rightarrow> fnum list" where
  "pct_change seen [] = []"
| "pct_change seen ((k, a) # series) =
     (case seen k of None \<Rightarrow> NaN | Some previous \<Rightarrow> pct previous a)
     # pct_change (seen(k \<mapsto> a)) series"

definition fillna_0 :: "fnum \<Rightarrow> fnum" where
  "fillna_0 x = (case x of NaN \<Rightarrow> Fin 0 | _ \<Rightarrow> x)"

text \<open>Line 89: the groups are the (Month, Category) pairs of the summed frame itself.\<close>

definition Amount_PctChange :: "expense list \<Rightarrow> fnum list" where
  "Amount_PctChange data = map fillna_0 (pct_change Map.empty (grouped_finances data))"

text \<open>
  \<^verbatim>\<open>time_plot\<close>, lines 26 to 31: the points of the line chart, in drawing order.
\<close>

definition time_plot :: "expense list \<Rightarrow> string \<Rightarrow> (string \<times> rat) list" where
  "time_plot data cat =
     (let group = groupby_sum data;
          filtered = filter (\<lambda>((m, c), a). c = cat) group;
          filtered' = sort_key (\<lambda>((m, c), a). m) filtered
      in map (\<lambda>((m, c), a). (m, a)) filtered')"

text \<open>
  Historical Data, lines 301 to 309: both files are read with \<^verbatim>\<open>create_dataframe\<close>
  directly, so a missing or unparsable file raises.
\<close>

definition historical_data :: "store \<Rightarrow> error + budget list \<times> expense list" where
  "historical_data st =
     (case create_dataframe (budget_csv st) of
        Inl err \<Rightarrow> Inl err
      | Inr budget_df \<Rightarrow>
          (case create_dataframe (expenses_csv st) of
             Inl err \<Rightarrow> Inl err
           | Inr expense_df \<Rightarrow>
               Inr (sort_key B_Month (rows budget_df), sort_key Month (rows expense_df))))"

section \<open>Properties of the allocation block\<close>

lemma max_or_0_Max: "s \<noteq> [] \<Longrightarrow> max_or_0 s = Max (set s)"
proof (cases s)
  case Nil
  assume "s \<noteq> []"
  with Nil show ?thesis by simp
next
  case (Cons x xs)
  have "max_or_0 (x # xs) = fold max xs x"
    by (simp add: max_or_0_def)
  also have "\<dots> = Max (set (x # xs))"
    by (rule Max.set_eq_fold [symmetric])
  finally show ?thesis using Cons by simp
qed

lemma max_or_0_Nil: "max_or_0 [] = 0"
  by (simp add: max_or_0_def)

lemma mean_or_0_Nil: "mean_or_0 [] = 0"
  by (simp add: mean_or_0_def)

text \<open>
  C1. For every paycheck \<open>P \<ge> 0\<close> and contribution fractions in \<open>[0, 0.30]\<close>, the three
  savings amounts add up to \<open>total_saved\<close>, and \<open>total_saved\<close>, \<open>fixed_budget\<close> and
  \<open>misc_budget\<close> add up to the paycheck, over exact arithmetic.
\<close>

theorem allocation_identity:
  assumes "0 \<le> paycheck"
    and "0 \<le> saving1 \<and> saving1 \<le> 3 / 10"
    and "0 \<le> saving2 \<and> saving2 \<le> 3 / 10"
    and "0 \<le> saving3 \<and> saving3 \<le> 3 / 10"
  shows "saving1_acct paycheck saving1 + saving2_acct paycheck saving2
           + saving3_acct paycheck saving3
         = total_saved paycheck saving1 saving2 saving3
       \<and> total_saved paycheck saving1 saving2 saving3 + fixed_budget expense_df
           + misc_budget paycheck saving1 saving2 saving3 expense_df
         = paycheck"
  by (simp add: total_saved_def misc_budget_def)

theorem allocation_identity_witness:
  "(0::rat) \<le> 2000 \<and> (0::rat) \<le> 1 / 5 \<and> (1::rat) / 5 \<le> 3 / 10
   \<and> (0::rat) \<le> 3 / 20 \<and> (3::rat) / 20 \<le> 3 / 10
   \<and> (0::rat) \<le> 1 / 10 \<and> (1::rat) / 10 \<le> 3 / 10
   \<and> saving1_acct 2000 (1 / 5) + saving2_acct 2000 (3 / 20) + saving3_acct 2000 (1 / 10)
       = total_saved 2000 (1 / 5) (3 / 20) (1 / 10)
   \<and> total_saved 2000 (1 / 5) (3 / 20) (1 / 10)
       + fixed_budget [\<lparr>Month = ''01/2024'', Amount = 600, Category = ''Rent'',
                        Planned_Unplanned = Text ''Yes'', Description = Text ''rent''\<rparr>]
       + misc_budget 2000 (1 / 5) (3 / 20) (1 / 10)
           [\<lparr>Month = ''01/2024'', Amount = 600, Category = ''Rent'',
             Planned_Unplanned = Text ''Yes'', Description = Text ''rent''\<rparr>]
       = 2000
   \<and> saving1_acct 2000 (1 / 5) = 400 \<and> saving2_acct 2000 (3 / 20) = 300
   \<and> saving3_acct 2000 (1 / 10) = 200 \<and> total_saved 2000 (1 / 5) (3 / 20) (1 / 10) = 900
   \<and> misc_budget 2000 (1 / 5) (3 / 20) (1 / 10)
           [\<lparr>Month = ''01/2024'', Amount = 600, Category = ''Rent'',
             Planned_Unplanned = Text ''Yes'', Description = Text ''rent''\<rparr>]
       = 500"
  using allocation_identity [of 2000 "1 / 5" "3 / 20" "1 / 10"
      "[\<lparr>Month = ''01/2024'', Amount = 600, Category = ''Rent'',
         Planned_Unplanned = Text ''Yes'', Description = Text ''rent''\<rparr>]"]
  by (simp add: saving1_acct_def saving2_acct_def saving3_acct_def total_saved_def
      misc_budget_def fixed_budget_def rent_max_def subscriptions_max_def groceries_avg_def
      utilities_max_def gas_max_def pet_avg_def category_amounts_def max_or_0_def
      mean_or_0_def)

text \<open>
  C2. The specification's fixed budget is the sum of seven statistics, Gym Membership's
  maximum among them. The program's \<open>fixed_budget\<close> leaves \<open>gym_max\<close> out: on a history
  with one Gym Membership expense of 40 it is 0, where the sum of the seven statistics
  is 40.
\<close>

theorem fixed_budget_omits_gym:
  "fixed_budget [\<lparr>Month = ''01/2024'', Amount = 40, Category = ''Gym Membership'',
                  Planned_Unplanned = Text ''Yes'', Description = Text ''gym''\<rparr>] = 0
   \<and> spec_fixed_budget [\<lparr>Month = ''01/2024'', Amount = 40, Category = ''Gym Membership'',
                  Planned_Unplanned = Text ''Yes'', Description = Text ''gym''\<rparr>] = 40"
  by (simp add: fixed_budget_def spec_fixed_budget_def rent_max_def subscriptions_max_def
      groceries_avg_def utilities_max_def gas_max_def pet_avg_def gym_max_def
      category_amounts_def max_or_0_def mean_or_0_def)

section \<open>Submitting a paycheck\<close>

lemma paycheck_submit_without_date:
  "paycheck_submit st None paycheck saving1 saving2 saving3 = Inl (NameError ''month'')"
  by (simp add: paycheck_submit_def split: prod.splits)

lemma paycheck_submit_with_date:
  "paycheck_submit st (Some d) paycheck saving1 saving2 saving3 = Inl (NameError ''sts_acct'')"
  by (simp add: paycheck_submit_def sts_acct_def split: prod.splits)

text \<open>
  C3. The claim has every paycheck submission append a budget row. In the program the
  row literal reads the unassigned name \<^verbatim>\<open>sts_acct\<close>: submitting a paycheck of 2000 with
  fractions 0.2, 0.15 and 0.10 on 15 January 2024, with no file on disk, raises
  \<^verbatim>\<open>NameError\<close>, and no row is written.
\<close>

theorem paycheck_submit_raises:
  "paycheck_submit \<lparr>budget_csv = None, expenses_csv = None\<rparr>
     (Some \<lparr>d_year = 2024, d_month = 1, d_day = 15\<rparr>) 2000 (1 / 5) (3 / 20) (1 / 10)
   = Inl (NameError ''sts_acct'')"
  by (simp add: paycheck_submit_def sts_acct_def check_budget_exists_def
      check_expense_exists_def)

section \<open>Loading and appending\<close>

text \<open>
  Reading back a column of strings: every field that is a missing-value marker becomes
  a missing value, every other field the string it is.
\<close>

lemma read_column_text:
  assumes "reads_as_text retype fs"
  shows "read_column retype fs = map (\<lambda>f. if f \<in> set na_values then Missing else Text f) fs"
proof (cases "list_all (\<lambda>m. m = None) (marked fs)")
  case True
  then have "\<forall>f\<in>set fs. f \<in> set na_values"
    by (auto simp: marked_def list_all_iff split: if_splits)
  with True show ?thesis
    by (simp add: read_column_def marked_def)
next
  case False
  with assms have "retype (marked fs) = None"
    by (simp add: reads_as_text_def)
  with False show ?thesis
    by (simp add: read_column_def marked_def comp_def if_distrib cong: if_cong)
qed

lemma zip_of_maps: "zip xs (zip (map f xs) (map g xs)) = map (\<lambda>x. (x, f x, g x)) xs"
  by (induction xs) auto

lemma reread_text:
  assumes "reads_as_text retype (map (\<lambda>r. write_cell (Planned_Unplanned r)) data)"
    and "reads_as_text retype (map (\<lambda>r. write_cell (Description r)) data)"
  shows "reread retype data
         = map (\<lambda>r. r\<lparr>Planned_Unplanned := read_back (Planned_Unplanned r),
                        Description := read_back (Description r)\<rparr>) data"
proof -
  have p: "read_column retype (map (\<lambda>r. write_cell (Planned_Unplanned r)) data)
           = map (\<lambda>r. read_back (Planned_Unplanned r)) data"
    unfolding read_column_text[OF assms(1)] by (simp add: read_back_def comp_def)
  have d: "read_column retype (map (\<lambda>r. write_cell (Description r)) data)
           = map (\<lambda>r. read_back (Description r)) data"
    unfolding read_column_text[OF assms(2)] by (simp add: read_back_def comp_def)
  show ?thesis
    unfolding reread_def p d Let_def zip_of_maps by (simp add: comp_def)
qed

lemma read_back_settled: "text_or_missing c \<Longrightarrow> read_back c = c"
  by (cases c) (simp_all add: text_or_missing_def read_back_def write_cell_def na_values_def)

lemma expense_submit_without_date:
  "expense_submit retype st None amount category scheduled description
   = Inl (NameError ''month'')"
  by (simp add: expense_submit_def split: prod.splits)

lemma expense_submit_wrong_columns:
  assumes "check_expense_exists st = (e_df, msgs)" and "length (columns e_df) \<noteq> 5"
  shows "expense_submit retype st (Some d) amount category scheduled description
         = Inl ValueError"
  using assms by (simp add: expense_submit_def)

text \<open>
  C5, as the claim states it, fails: with no file on disk, submitting an expense of 12
  for Groceries on 15 January 2024 with the form's defaults, no pill chosen and the
  description left empty, and loading the table again gives one row whose description
  is a missing value, not the empty string of the row that was appended.
\<close>

theorem append_reload_blank_description:
  "append_and_reload keeps_text \<lparr>budget_csv = None, expenses_csv = None\<rparr>
     (Some \<lparr>d_year = 2024, d_month = 1, d_day = 15\<rparr>) 12 ''Groceries'' None ''''
   = Inr [\<lparr>Month = ''01/2024'', Amount = 12, Category = ''Groceries'',
            Planned_Unplanned = Missing, Description = Missing\<rparr>]
   \<and> new_row ''01/2024'' 12 ''Groceries'' None ''''
     = \<lparr>Month = ''01/2024'', Amount = 12, Category = ''Groceries'',
        Planned_Unplanned = Missing, Description = Text ''''\<rparr>
   \<and> append_and_reload keeps_text \<lparr>budget_csv = None, expenses_csv = None\<rparr>
       (Some \<lparr>d_year = 2024, d_month = 1, d_day = 15\<rparr>) 12 ''Groceries'' None ''''
     \<noteq> Inr (rows (fst (check_expense_exists \<lparr>budget_csv = None, expenses_csv = None\<rparr>))
            @ [new_row ''01/2024'' 12 ''Groceries'' None ''''])"
  by (simp add: append_and_reload_def expense_submit_def check_expense_exists_def
      create_dataframe_def expense_columns_def strftime_m_Y_def digit_def decimal.simps
      new_row_def reread_def read_column_def marked_def write_cell_def na_values_def)

text \<open>The same rows come back whatever the parser does with columns of numbers.\<close>

lemma append_reload_blank_any_reader:
  "append_and_reload retype \<lparr>budget_csv = None, expenses_csv = None\<rparr>
     (Some \<lparr>d_year = 2024, d_month = 1, d_day = 15\<rparr>) 12 ''Groceries'' None ''''
   = Inr [\<lparr>Month = ''01/2024'', Amount = 12, Category = ''Groceries'',
            Planned_Unplanned = Missing, Description = Missing\<rparr>]"
  by (simp add: append_and_reload_def expense_submit_def check_expense_exists_def
      create_dataframe_def expense_columns_def strftime_m_Y_def digit_def decimal.simps
      new_row_def reread_def read_column_def marked_def write_cell_def na_values_def)

text \<open>
  C5, amended. Take a loaded expense table with the five expense columns whose planned
  flags and descriptions are strings or missing, a picked date and a category of the
  form, and let both columns be read as strings after the append. Then appending one row
  and loading the table again gives the rows loaded before, unchanged and in order,
  followed by one new row: the submitted month key, amount and category, and the planned
  flag and the description as strings, or as missing values where they were unset, empty
  or a missing-value marker.
\<close>

theorem append_reload:
  assumes "check_expense_exists st = (e_df, msgs)"
    and "length (columns e_df) = 5"
    and "\<forall>r\<in>set (rows e_df).
           text_or_missing (Planned_Unplanned r) \<and> text_or_missing (Description r)"
    and "category \<in> set category_options"
    and "reads_as_text retype (map (\<lambda>r. write_cell (Planned_Unplanned r))
           (rows e_df @ [new_row (strftime_m_Y d) amount category scheduled description]))"
    and "reads_as_text retype (map (\<lambda>r. write_cell (Description r))
           (rows e_df @ [new_row (strftime_m_Y d) amount category scheduled description]))"
  shows "append_and_reload retype st (Some d) amount category scheduled description
         = Inr (rows e_df
                @ [\<lparr>Month = strftime_m_Y d, Amount = amount, Category = category,
                     Planned_Unplanned =
                       (case scheduled of
                          None \<Rightarrow> Missing
                        | Some s \<Rightarrow> if s \<in> set na_values then Missing else Text s),
                     Description =
                       (if description \<in> set na_values then Missing
                        else Text description)\<rparr>])"
proof -
  let ?new = "new_row (strftime_m_Y d) amount category scheduled description"
  let ?rb = "\<lambda>r. r\<lparr>Planned_Unplanned := read_back (Planned_Unplanned r),
                         Description := read_back (Description r)\<rparr>"
  have all: "reread retype (rows e_df @ [?new]) = map ?rb (rows e_df @ [?new])"
    using assms(5,6) by (rule reread_text)
  have "?rb r = r" if "r \<in> set (rows e_df)" for r
    using assms(3) that by (simp add: read_back_settled)
  then have "map ?rb (rows e_df) = rows e_df"
    by (simp add: map_idI)
  with all have r: "reread retype (rows e_df @ [?new]) = rows e_df @ [?rb ?new]"
    by simp
  have "?rb ?new
      = \<lparr>Month = strftime_m_Y d, Amount = amount, Category = category,
         Planned_Unplanned =
           (case scheduled of
              None \<Rightarrow> Missing
            | Some s \<Rightarrow> if s \<in> set na_values then Missing else Text s),
         Description = (if description \<in> set na_values then Missing else Text description)\<rparr>"
    by (simp add: new_row_def read_back_def write_cell_def na_values_def split: option.splits)
  with r show ?thesis
    using assms(1,2)
    by (simp add: append_and_reload_def expense_submit_def check_expense_exists_def
        create_dataframe_def)
qed

theorem append_reload_witness:
  "check_expense_exists
     \<lparr>budget_csv = None,
      expenses_csv = Some (Csv \<lparr>columns = expense_columns,
        rows = [\<lparr>Month = ''12/2023'', Amount = 900, Category = ''Rent'',
                 Planned_Unplanned = Text ''Yes'', Description = Text ''rent''\<rparr>]\<rparr>)\<rparr>
     = (\<lparr>columns = expense_columns,
         rows = [\<lparr>Month = ''12/2023'', Amount = 900, Category = ''Rent'',
                  Planned_Unplanned = Text ''Yes'', Description = Text ''rent''\<rparr>]\<rparr>, [])
   \<and> length expense_columns = 5
   \<and> text_or_missing (Text ''Yes'') \<and> text_or_missing (Text ''rent'')
   \<and> ''Groceries'' \<in> set category_options
   \<and> reads_as_text keeps_text [''Yes'', ''No'']
   \<and> reads_as_text keeps_text [''rent'', '''']
   \<and> append_and_reload keeps_text
        \<lparr>budget_csv = None,
         expenses_csv = Some (Csv \<lparr>columns = expense_columns,
           rows = [\<lparr>Month = ''12/2023'', Amount = 900, Category = ''Rent'',
                    Planned_Unplanned = Text ''Yes'', Description = Text ''rent''\<rparr>]\<rparr>)\<rparr>
        (Some \<lparr>d_year = 2024, d_month = 1, d_day = 15\<rparr>) 12 ''Groceries'' (Some ''No'') ''''
      = Inr [\<lparr>Month = ''12/2023'', Amount = 900, Category = ''Rent'',
               Planned_Unplanned = Text ''Yes'', Description = Text ''rent''\<rparr>,
             \<lparr>Month = ''01/2024'', Amount = 12, Category = ''Groceries'',
               Planned_Unplanned = Text ''No'', Description = Missing\<rparr>]"
  using append_reload [of
      "\<lparr>budget_csv = None,
        expenses_csv = Some (Csv \<lparr>columns = expense_columns,
          rows = [\<lparr>Month = ''12/2023'', Amount = 900, Category = ''Rent'',
                   Planned_Unplanned = Text ''Yes'', Description = Text ''rent''\<rparr>]\<rparr>)\<rparr>"
      "\<lparr>columns = expense_columns,
        rows = [\<lparr>Month = ''12/2023'', Amount = 900, Category = ''Rent'',
                 Planned_Unplanned = Text ''Yes'', Description = Text ''rent''\<rparr>]\<rparr>"
      "[]" "''Groceries''" keeps_text "\<lparr>d_year = 2024, d_month = 1, d_day = 15\<rparr>" 12
      "Some ''No''" "''''"]
  by (simp add: check_expense_exists_def create_dataframe_def expense_columns_def
      strftime_m_Y_def digit_def decimal.simps text_or_missing_def category_options_def
      reads_as_text_def keeps_text_def new_row_def write_cell_def na_values_def)

text \<open>
  C6. Loading a table whose file does not exist shows no error and gives a table with
  no rows and the canonical columns, for the budget table and for the expense table.
\<close>

theorem load_missing_file:
  "(budget_csv st = None \<longrightarrow>
      check_budget_exists st
      = (\<lparr>columns = [''Month'', ''Paycheck'', ''saving1'', ''saving2'', ''STS'',
                      ''Total_Saved'', ''Fixed_Expenses'', ''Misc_Budget''],
          rows = []\<rparr>, []))
   \<and> (expenses_csv st = None \<longrightarrow>
      check_expense_exists st
      = (\<lparr>columns = [''Month'', ''Amount'', ''Category'', ''Planned_Unplanned'',
                      ''Description''],
          rows = []\<rparr>, []))"
  by (simp add: check_budget_exists_def check_expense_exists_def budget_columns_def
      expense_columns_def)

theorem load_missing_file_witness:
  "budget_csv \<lparr>budget_csv = None, expenses_csv = None\<rparr> = None
   \<and> expenses_csv \<lparr>budget_csv = None, expenses_csv = None\<rparr> = None
   \<and> check_budget_exists \<lparr>budget_csv = None, expenses_csv = None\<rparr>
      = (\<lparr>columns = [''Month'', ''Paycheck'', ''saving1'', ''saving2'', ''STS'',
                      ''Total_Saved'', ''Fixed_Expenses'', ''Misc_Budget''],
          rows = []\<rparr>, [])
   \<and> check_expense_exists \<lparr>budget_csv = None, expenses_csv = None\<rparr>
      = (\<lparr>columns = [''Month'', ''Amount'', ''Category'', ''Planned_Unplanned'',
                      ''Description''],
          rows = []\<rparr>, [])"
  using load_missing_file [of "\<lparr>budget_csv = None, expenses_csv = None\<rparr>"]
  by simp

section \<open>Grouped sums\<close>

lemma groupby_sum_keys: "map fst (groupby_sum data) = sort (remdups (map group_key data))"
  by (simp add: groupby_sum_def comp_def)

lemma distinct_groupby_sum: "distinct (map fst (groupby_sum data))"
  by (simp add: groupby_sum_keys)

lemma sorted_groupby_sum: "sorted (map fst (groupby_sum data))"
  by (simp add: groupby_sum_keys)

lemma sum_list_delta:
  assumes "distinct ks"
  shows "(\<Sum>k\<leftarrow>ks. if key = k then (v::rat) else 0) = (if key \<in> set ks then v else 0)"
  using assms by (induction ks) auto

text \<open>
  Grouping partitions the rows: adding up, over the selected distinct keys, the sums of
  the rows under each key gives the sum over the rows whose key is selected.
\<close>

lemma sum_groups:
  assumes "distinct ks" and "\<forall>r \<in> set data. P (key r) \<longrightarrow> key r \<in> set ks"
  shows "(\<Sum>k\<leftarrow>filter P ks. sum_list (map f (filter (\<lambda>r. key r = k) data)))
         = (sum_list (map f (filter (\<lambda>r. P (key r)) data)) :: rat)"
  using assms(2)
proof (induction data)
  case Nil
  then show ?case by simp
next
  case (Cons r data)
  have d: "distinct (filter P ks)" using assms(1) by simp
  have "(\<Sum>k\<leftarrow>filter P ks. sum_list (map f (filter (\<lambda>r. key r = k) (r # data))))
      = (\<Sum>k\<leftarrow>filter P ks. (if key r = k then f r else 0)
            + sum_list (map f (filter (\<lambda>r. key r = k) data)))"
    by (rule arg_cong[where f = sum_list], rule map_cong) auto
  also have "\<dots> = (\<Sum>k\<leftarrow>filter P ks. if key r = k then f r else 0)
      + (\<Sum>k\<leftarrow>filter P ks. sum_list (map f (filter (\<lambda>r. key r = k) data)))"
    by (simp add: sum_list_addf)
  also have "(\<Sum>k\<leftarrow>filter P ks. if key r = k then f r else 0)
      = (if key r \<in> set (filter P ks) then f r else 0)"
    by (rule sum_list_delta[OF d])
  also have "\<dots> = (if P (key r) then f r else 0)"
    using Cons.prems by auto
  also have "(\<Sum>k\<leftarrow>filter P ks. sum_list (map f (filter (\<lambda>r. key r = k) data)))
      = sum_list (map f (filter (\<lambda>r. P (key r)) data))"
    using Cons.prems by (intro Cons.IH) auto
  finally show ?case by simp
qed

lemma month_slice_amounts:
  "month_slice (filter (\<lambda>((m, c), a). Q c) (groupby_sum data)) select_month =
     (if \<exists>r\<in>set data. Month r = select_month \<and> Q (Category r)
      then Inr (map (\<lambda>k. (snd k, group_amount data k))
                 (filter (\<lambda>k. Q (snd k) \<and> fst k = select_month)
                    (sort (remdups (map group_key data)))))
      else Inl KeyError)"
proof -
  let ?ks = "sort (remdups (map group_key data))"
  let ?sel = "filter (\<lambda>k. Q (snd k) \<and> fst k = select_month) ?ks"
  have sub: "map (\<lambda>((m, c), a). (c, a))
       (filter (\<lambda>((m, c), a). m = select_month)
          (filter (\<lambda>((m, c), a). Q c) (groupby_sum data)))
     = map (\<lambda>k. (snd k, group_amount data k)) ?sel"
    by (simp add: groupby_sum_def filter_map comp_def case_prod_unfold conj_commute)
  have "?sel = [] \<longleftrightarrow> \<not> (\<exists>r\<in>set data. Month r = select_month \<and> Q (Category r))"
    by (auto simp: filter_empty_conv group_key_def)
  then show ?thesis
    unfolding month_slice_def sub Let_def by auto
qed

lemma slice_sum:
  "sum_list (map snd (map (\<lambda>k. (snd k, group_amount data k))
       (filter (\<lambda>k. Q (snd k) \<and> fst k = select_month) (sort (remdups (map group_key data))))))
   = sum_list (map Amount (filter (\<lambda>r. Month r = select_month \<and> Q (Category r)) data))"
proof -
  let ?P = "\<lambda>k. Q (snd k) \<and> fst k = select_month"
  let ?ks = "sort (remdups (map group_key data))"
  have "(\<Sum>k\<leftarrow>filter ?P ?ks. sum_list (map Amount (filter (\<lambda>r. group_key r = k) data)))
      = sum_list (map Amount (filter (\<lambda>r. ?P (group_key r)) data))"
    by (rule sum_groups) auto
  then show ?thesis
    by (simp add: comp_def group_amount_def group_key_def conj_commute)
qed

lemma fixed_slice:
  assumes "\<exists>r\<in>set data. Month r = select_month \<and> Category r \<in> set fixed_categories"
  obtains sub where "month_slice (month_fixed_expenses data) select_month = Inr sub"
    and "sum_list (map snd sub) = spec_fixed_total data select_month"
proof -
  let ?sub = "map (\<lambda>k. (snd k, group_amount data k))
     (filter (\<lambda>k. snd k \<in> set fixed_categories \<and> fst k = select_month)
        (sort (remdups (map group_key data))))"
  have "month_slice (month_fixed_expenses data) select_month = Inr ?sub"
    unfolding month_fixed_expenses_def month_slice_amounts using assms by simp
  moreover have "sum_list (map snd ?sub) = spec_fixed_total data select_month"
    unfolding spec_fixed_total_def by (rule slice_sum)
  ultimately show thesis by (rule that)
qed

lemma fixed_slice_none:
  assumes "\<not> (\<exists>r\<in>set data. Month r = select_month \<and> Category r \<in> set fixed_categories)"
  shows "month_slice (month_fixed_expenses data) select_month = Inl KeyError"
  unfolding month_fixed_expenses_def month_slice_amounts using assms by simp

lemma misc_slice:
  assumes "\<exists>r\<in>set data. Month r = select_month"
  obtains sub where "month_slice (month_misc_expenses data) select_month = Inr sub"
    and "sum_list (map snd sub)
         = sum_list (map Amount (filter (\<lambda>r. Month r = select_month) data))"
proof -
  let ?sub = "map (\<lambda>k. (snd k, group_amount data k))
     (filter (\<lambda>k. True \<and> fst k = select_month) (sort (remdups (map group_key data))))"
  have f: "groupby_sum data = filter (\<lambda>((m, c), a). True) (groupby_sum data)"
    by (simp add: case_prod_unfold)
  have "month_slice (month_misc_expenses data) select_month = Inr ?sub"
    unfolding month_misc_expenses_def
    by (subst f, unfold month_slice_amounts) (use assms in simp)
  moreover have "sum_list (map snd ?sub)
      = sum_list (map Amount (filter (\<lambda>r. Month r = select_month \<and> True) data))"
    by (rule slice_sum)
  ultimately show thesis using that by simp
qed

lemma misc_slice_none:
  assumes "\<not> (\<exists>r\<in>set data. Month r = select_month)"
  shows "month_slice (month_misc_expenses data) select_month = Inl KeyError"
proof -
  have f: "groupby_sum data = filter (\<lambda>((m, c), a). True) (groupby_sum data)"
    by (simp add: case_prod_unfold)
  show ?thesis
    unfolding month_misc_expenses_def
    by (subst f, unfold month_slice_amounts) (use assms in simp)
qed

text \<open>
  What the two totals of the expense summary are, for every table and month: the fixed
  total is the sum over the month's rows in a fixed category; the total shown as
  miscellaneous is the sum over all the month's rows.
\<close>

lemma total_fixed_expenses_eq:
  "total_fixed_expenses data select_month =
     (if \<exists>r\<in>set data. Month r = select_month \<and> Category r \<in> set fixed_categories
      then Inr (spec_fixed_total data select_month) else Inl KeyError)"
proof (cases "\<exists>r\<in>set data. Month r = select_month \<and> Category r \<in> set fixed_categories")
  case True
  then obtain sub where "month_slice (month_fixed_expenses data) select_month = Inr sub"
    and "sum_list (map snd sub) = spec_fixed_total data select_month"
    by (rule fixed_slice)
  with True show ?thesis by (simp add: total_fixed_expenses_def)
next
  case False
  then show ?thesis by (simp add: total_fixed_expenses_def fixed_slice_none)
qed

lemma total_misc_expenses_eq:
  "total_misc_expenses data select_month =
     (if \<exists>r\<in>set data. Month r = select_month
      then Inr (sum_list (map Amount (filter (\<lambda>r. Month r = select_month) data)))
      else Inl KeyError)"
proof (cases "\<exists>r\<in>set data. Month r = select_month")
  case True
  then obtain sub where "month_slice (month_misc_expenses data) select_month = Inr sub"
    and "sum_list (map snd sub)
         = sum_list (map Amount (filter (\<lambda>r. Month r = select_month) data))"
    by (rule misc_slice)
  with True show ?thesis by (simp add: total_misc_expenses_def)
next
  case False
  then show ?thesis by (simp add: total_misc_expenses_def misc_slice_none)
qed

lemma month_total_split:
  "sum_list (map Amount (filter (\<lambda>r. Month r = select_month) data))
   = spec_fixed_total data select_month + spec_misc_total data select_month"
  unfolding spec_fixed_total_def spec_misc_total_def
  by (induction data) auto

text \<open>
  C4. The claim has the miscellaneous total sum the month's rows outside the fixed
  categories. The program sums every row of the month: with a Rent expense of 100 and a
  Dining Out expense of 20 in January 2024 it shows 120 as miscellaneous, where the
  rows outside the fixed set sum to 20. The fixed total, 100, is as the claim says.
\<close>

theorem misc_total_includes_fixed:
  "total_misc_expenses
     [\<lparr>Month = ''01/2024'', Amount = 100, Category = ''Rent'',
        Planned_Unplanned = Text ''Yes'', Description = Text ''rent''\<rparr>,
      \<lparr>Month = ''01/2024'', Amount = 20, Category = ''Dining Out'',
        Planned_Unplanned = Text ''No'', Description = Text ''dinner''\<rparr>] ''01/2024'' = Inr 120
   \<and> spec_misc_total
     [\<lparr>Month = ''01/2024'', Amount = 100, Category = ''Rent'',
        Planned_Unplanned = Text ''Yes'', Description = Text ''rent''\<rparr>,
      \<lparr>Month = ''01/2024'', Amount = 20, Category = ''Dining Out'',
        Planned_Unplanned = Text ''No'', Description = Text ''dinner''\<rparr>] ''01/2024'' = 20
   \<and> total_fixed_expenses
     [\<lparr>Month = ''01/2024'', Amount = 100, Category = ''Rent'',
        Planned_Unplanned = Text ''Yes'', Description = Text ''rent''\<rparr>,
      \<lparr>Month = ''01/2024'', Amount = 20, Category = ''Dining Out'',
        Planned_Unplanned = Text ''No'', Description = Text ''dinner''\<rparr>] ''01/2024'' = Inr 100"
  by (simp add: total_misc_expenses_def month_misc_expenses_def total_fixed_expenses_def
      month_fixed_expenses_def month_slice_def groupby_sum_def group_key_def
      group_amount_def spec_misc_total_def fixed_categories_def)

section \<open>The expense summary against the budget\<close>

lemma month_column_no_row:
  assumes "\<forall>b\<in>set (rows budget_check). B_Month b \<noteq> select_month"
  shows "month_column budget_check select_month col = []"
  using assms
  by (auto simp: month_column_def filter_empty_conv in_set_enumerate_eq)

text \<open>
  The fixed comparison, for every month with a fixed-category expense: without a budget
  row for the month, \<^verbatim>\<open>.iloc[0]\<close> raises \<^verbatim>\<open>IndexError\<close> and the handler for
  \<^verbatim>\<open>KeyError\<close> does not catch it; with one, the warning is shown exactly when the total
  exceeds the budgeted amount, and carries the difference.
\<close>

lemma fixed_section_no_budget_row:
  assumes "\<exists>r\<in>set data. Month r = select_month \<and> Category r \<in> set fixed_categories"
    and "\<forall>b\<in>set (rows budget_check). B_Month b \<noteq> select_month"
  shows "fixed_section data budget_check select_month = Inl IndexError"
proof -
  from assms(1) obtain sub where "month_slice (month_fixed_expenses data) select_month = Inr sub"
    by (rule fixed_slice)
  then show ?thesis
    by (simp add: fixed_section_def fixed_try_def month_column_no_row[OF assms(2)] iloc_0_def)
qed

lemma fixed_section_flags:
  assumes "\<exists>r\<in>set data. Month r = select_month \<and> Category r \<in> set fixed_categories"
    and "iloc_0 (month_column budget_check select_month Fixed_Expenses) = Inr fixed"
  shows "\<exists>sub. fixed_section data budget_check select_month
     = Inr [St_subheader ''Fixed Expenses'', St_dataframe sub,
            St_metric ''Total Fixed Expenses (Month)'' (spec_fixed_total data select_month),
            if spec_fixed_total data select_month > fixed
            then St_warning ''FYI you are over the fixed expenses budget by''
                   (spec_fixed_total data select_month - fixed)
            else St_write ''You are within the fixed expenses budget.'']"
proof -
  from assms(1) obtain sub where "month_slice (month_fixed_expenses data) select_month = Inr sub"
    and "sum_list (map snd sub) = spec_fixed_total data select_month"
    by (rule fixed_slice)
  then show ?thesis
    by (auto simp: fixed_section_def fixed_try_def assms(2) Let_def)
qed

lemma fixed_section_no_fixed_rows:
  assumes "\<not> (\<exists>r\<in>set data. Month r = select_month \<and> Category r \<in> set fixed_categories)"
  shows "fixed_section data budget_check select_month
         = Inr [St_subheader ''Fixed Expenses'',
                St_write ''There are no fixed expenses logged.'']"
  by (simp add: fixed_section_def fixed_try_def fixed_slice_none[OF assms])

text \<open>
  C7. The claim has both comparisons skipped with a message when the month has expense
  rows and no budget row. With one Rent expense in January 2024 and no budget file, the
  fixed comparison raises \<^verbatim>\<open>IndexError\<close>, which nothing catches.
\<close>

theorem missing_budget_row_raises:
  "expense_summary_page
     \<lparr>budget_csv = None,
      expenses_csv = Some (Csv \<lparr>columns = expense_columns,
        rows = [\<lparr>Month = ''01/2024'', Amount = 100, Category = ''Rent'',
                 Planned_Unplanned = Text ''Yes'', Description = Text ''rent''\<rparr>]\<rparr>)\<rparr>
     ''01/2024''
   = Inl IndexError"
  by (simp add: expense_summary_page_def check_expense_exists_def check_budget_exists_def
      create_dataframe_def fixed_section_def fixed_try_def month_slice_def
      month_fixed_expenses_def groupby_sum_def group_key_def group_amount_def
      fixed_categories_def iloc_0_def month_column_def)

text \<open>
  C8. The claim has each comparison flag the month exactly when the actual total exceeds
  the budgeted amount. The miscellaneous comparison reads the budget with \<^verbatim>\<open>[0]\<close>, the
  index label 0: when the month's budget row is the second row of the table, with
  Misc\_Budget 100 against expenses of 150, no flag is shown but the message that no
  miscellaneous expenses are logged.
\<close>

theorem misc_lookup_by_label:
  "misc_section
     [\<lparr>Month = ''01/2024'', Amount = 150, Category = ''Dining Out'',
        Planned_Unplanned = Text ''No'', Description = Text ''dinner''\<rparr>]
     \<lparr>columns = budget_columns,
      rows = [\<lparr>B_Month = ''12/2023'', Paycheck = 2000, B_saving1 = 400, B_saving2 = 300,
               STS = 200, Total_Saved = 900, Fixed_Expenses = 600, Misc_Budget = 500\<rparr>,
              \<lparr>B_Month = ''01/2024'', Paycheck = 1600, B_saving1 = 400, B_saving2 = 300,
               STS = 200, Total_Saved = 900, Fixed_Expenses = 600, Misc_Budget = 100\<rparr>]\<rparr>
     ''01/2024''
   = [St_subheader ''Miscellaneous Expenses'', St_dataframe [(''Dining Out'', 150)],
      St_metric ''Total Miscellaneous Expenses (Month)'' 150,
      St_write ''There are no miscellaneous expenses logged.'']"
  by (simp add: misc_section_def misc_try_def month_slice_def month_misc_expenses_def
      groupby_sum_def group_key_def group_amount_def getitem_0_def month_column_def)

text \<open>The specification's example for the fixed comparison: 650 against 600.\<close>

lemma fixed_over_budget_example:
  "fixed_section
     [\<lparr>Month = ''01/2024'', Amount = 650, Category = ''Rent'',
        Planned_Unplanned = Text ''Yes'', Description = Text ''rent''\<rparr>]
     \<lparr>columns = budget_columns,
      rows = [\<lparr>B_Month = ''01/2024'', Paycheck = 2000, B_saving1 = 400, B_saving2 = 300,
               STS = 200, Total_Saved = 900, Fixed_Expenses = 600, Misc_Budget = 500\<rparr>]\<rparr>
     ''01/2024''
   = Inr [St_subheader ''Fixed Expenses'', St_dataframe [(''Rent'', 650)],
          St_metric ''Total Fixed Expenses (Month)'' 650,
          St_warning ''FYI you are over the fixed expenses budget by'' 50]"
  by (simp add: fixed_section_def fixed_try_def month_slice_def month_fixed_expenses_def
      groupby_sum_def group_key_def group_amount_def fixed_categories_def iloc_0_def
      month_column_def)

text \<open>
  The miscellaneous comparison, for every month with an expense: it is made only when a
  budget row of the month carries the index label 0, and then against the sum of all
  the month's rows; without a budget row of the month the section ends with its
  message.
\<close>

lemma misc_section_flags:
  assumes "\<exists>r\<in>set data. Month r = select_month"
    and "getitem_0 (month_column budget_check select_month Misc_Budget) = Inr misc"
  shows "\<exists>sub. misc_section data budget_check select_month
     = [St_subheader ''Miscellaneous Expenses'', St_dataframe sub,
        St_metric ''Total Miscellaneous Expenses (Month)''
          (sum_list (map Amount (filter (\<lambda>r. Month r = select_month) data))),
        if sum_list (map Amount (filter (\<lambda>r. Month r = select_month) data)) > misc
        then St_warning ''FYI you are over the miscellaneous spend budget by''
               (sum_list (map Amount (filter (\<lambda>r. Month r = select_month) data)) - misc)
        else St_write ''You are within the miscellaneous spend budget.'']"
proof -
  from assms(1) obtain sub where "month_slice (month_misc_expenses data) select_month = Inr sub"
    and "sum_list (map snd sub)
         = sum_list (map Amount (filter (\<lambda>r. Month r = select_month) data))"
    by (rule misc_slice)
  then show ?thesis
    by (auto simp: misc_section_def misc_try_def assms(2) Let_def)
qed

lemma misc_section_no_budget_row:
  assumes "\<forall>b\<in>set (rows budget_check). B_Month b \<noteq> select_month"
  shows "last (misc_section data budget_check select_month)
         = St_write ''There are no miscellaneous expenses logged.''"
  by (simp add: misc_section_def misc_try_def month_column_no_row[OF assms] getitem_0_def
      Let_def split: sum.splits)

section \<open>Percent change\<close>

lemma length_pct_change: "length (pct_change seen series) = length series"
  by (induction series arbitrary: seen) auto

lemma pct_fraction: "previous \<noteq> 0 \<Longrightarrow> pct previous current = Fin ((current - previous) / previous)"
  by (simp add: pct_def diff_divide_distrib)

text \<open>
  The entry of a row is computed against the last earlier row with the same key:
  after the rows \<open>xs\<close>, the amount remembered for a key is the one \<open>map_of (rev xs)\<close>
  finds.
\<close>

lemma pct_change_append:
  "pct_change seen (xs @ ys) = pct_change seen xs @ pct_change (seen ++ map_of (rev xs)) ys"
proof (induction xs arbitrary: seen)
  case Nil
  then show ?case by simp
next
  case (Cons x xs)
  obtain k a where x: "x = (k, a)" by (cases x)
  have eq: "seen ++ map_of (rev (x # xs)) = seen(k \<mapsto> a) ++ map_of (rev xs)"
    by (rule ext) (simp add: x map_add_def split: option.splits)
  have "pct_change seen ((x # xs) @ ys)
      = (case seen k of None \<Rightarrow> NaN | Some previous \<Rightarrow> pct previous a)
        # pct_change (seen(k \<mapsto> a)) (xs @ ys)"
    by (simp add: x)
  also have "pct_change (seen(k \<mapsto> a)) (xs @ ys)
      = pct_change (seen(k \<mapsto> a)) xs
        @ pct_change (seen(k \<mapsto> a) ++ map_of (rev xs)) ys"
    by (rule Cons.IH)
  finally show ?case
    unfolding eq by (simp add: x)
qed

lemma pct_change_nth:
  "pct_change Map.empty (xs @ (k, a) # ys) ! length xs
   = (case map_of (rev xs) k of None \<Rightarrow> NaN | Some previous \<Rightarrow> pct previous a)"
  by (simp add: pct_change_append nth_append length_pct_change)

text \<open>When no key occurs twice, no row has an earlier row to be compared with.\<close>

lemma pct_change_fresh:
  "distinct (map fst series) \<Longrightarrow> dom seen \<inter> fst ` set series = {} \<Longrightarrow>
   map fillna_0 (pct_change seen series) = replicate (length series) (Fin 0)"
proof (induction series arbitrary: seen)
  case Nil
  then show ?case by simp
next
  case (Cons x series)
  obtain k a where x: "x = (k, a)" by (cases x)
  from Cons.prems x have k: "seen k = None" by auto
  from Cons.prems x have "dom (seen(k \<mapsto> a)) \<inter> fst ` set series = {}"
    by auto
  moreover from Cons.prems have "distinct (map fst series)" by simp
  ultimately have "map fillna_0 (pct_change (seen(k \<mapsto> a)) series)
      = replicate (length series) (Fin 0)"
    by (rule Cons.IH[rotated])
  moreover have "fillna_0 NaN = Fin 0" by (simp add: fillna_0_def)
  ultimately show ?case using k x by simp
qed

text \<open>
  C9. Within a group, the percent change of a row is the fractional change against the
  row before it in that group, and a first row gets 0. The groups of the program are the
  (Month, Category) pairs of the frame that holds one summed row per pair, so every
  value of the column is 0.
\<close>

theorem percent_change_zero:
  "pct_change Map.empty (xs @ (k, a) # ys) ! length xs
     = (case map_of (rev xs) k of None \<Rightarrow> NaN | Some previous \<Rightarrow> pct previous a)
   \<and> pct (100 :: rat) 110 = Fin (1 / 10)
   \<and> fillna_0 NaN = Fin 0
   \<and> distinct (map fst (grouped_finances data))
   \<and> Amount_PctChange data = replicate (length (grouped_finances data)) (Fin 0)"
proof -
  have "Amount_PctChange data = replicate (length (grouped_finances data)) (Fin 0)"
    unfolding Amount_PctChange_def grouped_finances_def
    by (rule pct_change_fresh) (simp_all add: distinct_groupby_sum)
  then show ?thesis
    by (simp add: pct_change_nth pct_def fillna_0_def grouped_finances_def
        distinct_groupby_sum)
qed

section \<open>The order of months\<close>

lemma sorted_time_plot: "sorted (map fst (time_plot data cat))"
proof -
  have "map fst (time_plot data cat)
      = map (\<lambda>((m, c), a). m)
          (sort_key (\<lambda>((m, c), a). m) (filter (\<lambda>((m, c), a). c = cat) (groupby_sum data)))"
    by (simp add: time_plot_def comp_def case_prod_unfold)
  then show ?thesis by simp
qed

lemma sorted_fst_of_pairs:
  fixes ks :: "(string \<times> string) list"
  shows "sorted ks \<Longrightarrow> sorted (map fst ks)"
  by (induction ks) (auto simp: less_eq_prod_def)

lemma sorted_grouped_months: "sorted (map (fst \<circ> fst) (grouped_finances data))"
proof -
  have "sorted (map fst (map fst (grouped_finances data)))"
    unfolding grouped_finances_def by (rule sorted_fst_of_pairs) (rule sorted_groupby_sum)
  then show ?thesis by simp
qed

text \<open>
  C10. Months are ordered as strings, not as dates: the chart series, the sorted
  expense frame, the summed frame the percent change runs over, and both history views
  are ascending in the lexicographic order of the period key. The key of a date in
  February 2024 is \<open>''02/2024''\<close>, the key of a date in January 2025 is \<open>''01/2025''\<close>, and
  the second is the smaller string, so the chart draws January 2025 before February
  2024.
\<close>

theorem month_order_lexicographic:
  "sorted (map fst (time_plot data cat))
   \<and> sorted (map Month (finances_df data))
   \<and> sorted (map (fst \<circ> fst) (grouped_finances data))
   \<and> (case historical_data st of
        Inl err \<Rightarrow> True
      | Inr (b_history, e_history) \<Rightarrow>
          sorted (map B_Month b_history) \<and> sorted (map Month e_history))
   \<and> strftime_m_Y \<lparr>d_year = 2024, d_month = 2, d_day = 10\<rparr> = ''02/2024''
   \<and> strftime_m_Y \<lparr>d_year = 2025, d_month = 1, d_day = 5\<rparr> = ''01/2025''
   \<and> ''01/2025'' < ''02/2024''
   \<and> time_plot
        [\<lparr>Month = ''02/2024'', Amount = 1000, Category = ''Rent'',
           Planned_Unplanned = Text ''Yes'', Description = Text ''rent''\<rparr>,
         \<lparr>Month = ''01/2025'', Amount = 1100, Category = ''Rent'',
           Planned_Unplanned = Text ''Yes'', Description = Text ''rent''\<rparr>] ''Rent''
      = [(''01/2025'', 1100), (''02/2024'', 1000)]"
proof -
  have "case historical_data st of
        Inl err \<Rightarrow> True
      | Inr (b_history, e_history) \<Rightarrow>
          sorted (map B_Month b_history) \<and> sorted (map Month e_history)"
    by (simp add: historical_data_def split: sum.splits)
  moreover have "sorted (map Month (finances_df data))"
    by (simp add: finances_df_def)
  moreover have "strftime_m_Y \<lparr>d_year = 2024, d_month = 2, d_day = 10\<rparr> = ''02/2024''"
    and "strftime_m_Y \<lparr>d_year = 2025, d_month = 1, d_day = 5\<rparr> = ''01/2025''"
    by (simp_all add: strftime_m_Y_def digit_def decimal.simps)
  moreover have "''01/2025'' < ''02/2024''"
    by simp
  moreover have "time_plot
        [\<lparr>Month = ''02/2024'', Amount = 1000, Category = ''Rent'',
           Planned_Unplanned = Text ''Yes'', Description = Text ''rent''\<rparr>,
         \<lparr>Month = ''01/2025'', Amount = 1100, Category = ''Rent'',
           Planned_Unplanned = Text ''Yes'', Description = Text ''rent''\<rparr>] ''Rent''
      = [(''01/2025'', 1100), (''02/2024'', 1000)]"
    by (simp add: time_plot_def groupby_sum_def group_key_def group_amount_def)
  ultimately show ?thesis
    using sorted_time_plot sorted_grouped_months by blast
qed

end
